theory Spec2Isabelle
  imports
    Complex_Main
    "HOL-Library.Sublist"
    "HOL-Library.Char_ord"
    "HOL-Library.List_Lexorder"
begin

section \<open>Python dictionaries with insertion order\<close>

text \<open>
  A Python \<^verbatim>\<open>dict\<close> iterates in insertion order, and \<^verbatim>\<open>list(d.values())\<close> depends on
  that order, so a dictionary is an association list with distinct keys:
  \<^verbatim>\<open>d[k] = v\<close> overwrites the value in place when \<^verbatim>\<open>k\<close> is present and appends the pair
  at the end otherwise; \<^verbatim>\<open>d.get(k)\<close> is \<open>map_of d k\<close>; \<^verbatim>\<open>k in d\<close> is
  \<open>map_of d k \<noteq> None\<close>.
\<close>

fun dict_set :: "('k \<times> 'v) list \<Rightarrow> 'k \<Rightarrow> 'v \<Rightarrow> ('k \<times> 'v) list" where
  "dict_set [] k v = [(k, v)]"
| "dict_set ((k', v') # kvs) k v =
     (if k' = k then (k', v) # kvs else (k', v') # dict_set kvs k v)"

section \<open>Data model\<close>

text \<open>
  \<^verbatim>\<open>state.SignalOpinionCategory\<close> is imported by the module; its three members are the ones
  the module names.
\<close>

datatype SignalOpinionCategory = NEGATIVE_CLASS | INVESTIGATION_SEED | POSITIVE_CLASS

text \<open>
  \<^verbatim>\<open>FBThreatExchangeOpinion(owner, category, tags, descriptor_id)\<close>. The field \<^verbatim>\<open>tags\<close> is
  annotated as a set, but the parse stores the JSON list (or the sorted list of the nested
  form) as it is; only membership and iteration are ever used on it, so it is a list here,
  and the \<^verbatim>\<open>set()\<close> of a reaction opinion is the empty list.
\<close>

record FBThreatExchangeOpinion =
  owner :: int
  category :: SignalOpinionCategory
  tags :: "string list"
  descriptor_id :: "int option"

definition REACTION_DESCRIPTOR_ID :: int where
  "REACTION_DESCRIPTOR_ID = - 1"

record FBThreatExchangeIndicatorRecord =
  opinions :: "FBThreatExchangeOpinion list"

record FBThreatExchangeCheckpoint =
  update_time :: int
  last_fetch_time :: int

text \<open>
  The raw JSON of one update, as the field selector of \<^verbatim>\<open>te_threat_updates_fields\<close> asks
  for it. Keys the parse reads with \<^verbatim>\<open>[...]\<close> are fields; keys it reads with
  \<^verbatim>\<open>.get(key, default)\<close> are optional. \<^verbatim>\<open>tags\<close> is either a plain list of strings or
  the nested form \<^verbatim>\<open>{"data": [{"text": ...}, ...]}\<close>. The numeric strings that the parse
  passes through \<^verbatim>\<open>int(...)\<close> are integers here.
\<close>

record reaction_json =
  rxn_key :: string
  rxn_value :: int

datatype tags_json = TagList "string list" | TagDict "string list"

record td_json =
  td_id :: int
  td_owner_id :: int
  td_status :: string
  td_tags :: "tags_json option"
  td_reactions :: "reaction_json list option"

record ThreatUpdateJSON =
  should_delete :: bool
  threat_type :: string
  indicator :: string
  time :: int
  descriptors_data :: "td_json list"

datatype error = NotImplementedError | AppTokenNotConfigured

section \<open>Checkpoint\<close>

text \<open>
  \<^verbatim>\<open>time.time() - self.last_fetch_time > 3600 * 24 * 85\<close>. The clock reading is a
  parameter, taken as a real number.
\<close>

definition is_stale :: "real \<Rightarrow> FBThreatExchangeCheckpoint \<Rightarrow> bool" where
  "is_stale now c \<longleftrightarrow> now - real_of_int (last_fetch_time c) > 3600 * 24 * 85"

definition get_progress_timestamp :: "FBThreatExchangeCheckpoint \<Rightarrow> int" where
  "get_progress_timestamp c = update_time c"

section \<open>Parsing one raw update\<close>

definition status_category :: "string \<Rightarrow> SignalOpinionCategory" where
  "status_category status =
     (if status = ''MALICIOUS'' then POSITIVE_CLASS
      else if status = ''NON_MALICIOUS'' then NEGATIVE_CLASS
      else INVESTIGATION_SEED)"

fun normalize_tags :: "tags_json option \<Rightarrow> string list" where
  "normalize_tags None = []"
| "normalize_tags (Some (TagList ts)) = ts"
| "normalize_tags (Some (TagDict texts)) = sort texts"

text \<open>The inner loop over \<^verbatim>\<open>td_json.get("reactions", [])\<close>.\<close>

fun reactions_loop ::
  "(int \<times> SignalOpinionCategory) list \<Rightarrow> reaction_json list \<Rightarrow> (int \<times> SignalOpinionCategory) list"
where
  "reactions_loop implicit_opinions [] = implicit_opinions"
| "reactions_loop implicit_opinions (reaction # rest) =
     reactions_loop
       (if rxn_key reaction = ''HELPFUL''
          then dict_set implicit_opinions (rxn_value reaction) POSITIVE_CLASS
        else if rxn_key reaction = ''DISAGREE_WITH_TAGS''
                \<and> map_of implicit_opinions (rxn_value reaction) = None
          then dict_set implicit_opinions (rxn_value reaction) NEGATIVE_CLASS
        else implicit_opinions)
       rest"

definition explicit_opinion :: "td_json \<Rightarrow> FBThreatExchangeOpinion" where
  "explicit_opinion td =
     \<lparr>owner = td_owner_id td, category = status_category (td_status td),
      tags = normalize_tags (td_tags td), descriptor_id = Some (td_id td)\<rparr>"

definition reactions_of :: "td_json \<Rightarrow> reaction_json list" where
  "reactions_of td = (case td_reactions td of None \<Rightarrow> [] | Some rs \<Rightarrow> rs)"

text \<open>The loop over \<^verbatim>\<open>te_json.raw_json["descriptors"]["data"]\<close>.\<close>

fun descriptors_loop ::
  "(int \<times> FBThreatExchangeOpinion) list \<Rightarrow> (int \<times> SignalOpinionCategory) list \<Rightarrow> td_json list
   \<Rightarrow> (int \<times> FBThreatExchangeOpinion) list \<times> (int \<times> SignalOpinionCategory) list"
where
  "descriptors_loop explicit_opinions implicit_opinions [] =
     (explicit_opinions, implicit_opinions)"
| "descriptors_loop explicit_opinions implicit_opinions (td # rest) =
     descriptors_loop
       (dict_set explicit_opinions (td_owner_id td) (explicit_opinion td))
       (reactions_loop implicit_opinions (reactions_of td))
       rest"

definition implicit_opinion :: "int \<Rightarrow> SignalOpinionCategory \<Rightarrow> FBThreatExchangeOpinion" where
  "implicit_opinion owner_id cat =
     \<lparr>owner = owner_id, category = cat, tags = [],
      descriptor_id = Some REACTION_DESCRIPTOR_ID\<rparr>"

text \<open>The loop over \<^verbatim>\<open>implicit_opinions.items()\<close>.\<close>

fun implicit_loop ::
  "(int \<times> FBThreatExchangeOpinion) list \<Rightarrow> (int \<times> SignalOpinionCategory) list
   \<Rightarrow> (int \<times> FBThreatExchangeOpinion) list"
where
  "implicit_loop explicit_opinions [] = explicit_opinions"
| "implicit_loop explicit_opinions ((owner_id, cat) # rest) =
     implicit_loop
       (if map_of explicit_opinions owner_id \<noteq> None then explicit_opinions
        else dict_set explicit_opinions owner_id (implicit_opinion owner_id cat))
       rest"

definition parse_opinions :: "ThreatUpdateJSON \<Rightarrow> (int \<times> FBThreatExchangeOpinion) list" where
  "parse_opinions te_json =
     (case descriptors_loop [] [] (descriptors_data te_json) of
        (explicit_opinions, implicit_opinions) \<Rightarrow>
          implicit_loop explicit_opinions implicit_opinions)"

definition from_threatexchange_json ::
  "ThreatUpdateJSON \<Rightarrow> FBThreatExchangeIndicatorRecord option"
where
  "from_threatexchange_json te_json =
     (if should_delete te_json then None
      else if parse_opinions te_json = [] then None
      else Some \<lparr>opinions = map snd (parse_opinions te_json)\<rparr>)"

text \<open>
  Two readings of the reactions of an update, used to state what the parse computes: all
  reactions in parse order, and whether an owner sent a reaction of a given kind.
\<close>

definition all_reactions :: "ThreatUpdateJSON \<Rightarrow> reaction_json list" where
  "all_reactions te_json = concat (map reactions_of (descriptors_data te_json))"

definition helpful_from :: "int \<Rightarrow> reaction_json list \<Rightarrow> bool" where
  "helpful_from k rs = list_ex (\<lambda>r. rxn_key r = ''HELPFUL'' \<and> rxn_value r = k) rs"

definition disagree_from :: "int \<Rightarrow> reaction_json list \<Rightarrow> bool" where
  "disagree_from k rs = list_ex (\<lambda>r. rxn_key r = ''DISAGREE_WITH_TAGS'' \<and> rxn_value r = k) rs"

section \<open>Records as objects\<close>

text \<open>
  \<^verbatim>\<open>merge\<close> mutates its receiver, and the projection stores references to the records
  of its input, so records live in a store: an address is an index into the list of all
  record objects, and allocation appends. Every record owns its opinion list, as the two
  constructor calls of the module build it (each from a fresh list). A Python reference
  is never dangling, which is the condition \<open>a < length h\<close> of the results below.
\<close>

type_synonym addr = nat
type_synonym heap = "FBThreatExchangeIndicatorRecord list"

text \<open>\<^verbatim>\<open>self.opinions.extend(other.opinions)\<close>; extending a list by itself doubles it.\<close>

definition merge :: "heap \<Rightarrow> addr \<Rightarrow> addr \<Rightarrow> heap" where
  "merge h self other = h[self := \<lparr>opinions = opinions (h ! self) @ opinions (h ! other)\<rparr>]"

section \<open>Type-tag resolver\<close>

text \<open>
  A signal type is a class: its name stands for its identity. \<open>INDICATOR_TYPE\<close> is
  \<open>None\<close> for a class that is not a subclass of \<^verbatim>\<open>HasFbThreatExchangeIndicatorType\<close>;
  otherwise it is a string, a set of strings (the list of its elements in iteration order)
  or a dictionary from type to optional tag (its items in order).
\<close>

datatype indicator_type_decl =
  SingleType string
| TypeSet "string list"
| TypeTagMap "(string \<times> string option) list"

record SignalType =
  cls_name :: string
  INDICATOR_TYPE :: "indicator_type_decl option"

type_synonym tag_mapping = "(string option \<times> SignalType list) list"
type_synonym type_mapping = "(string \<times> tag_mapping) list"

fun declared_types :: "indicator_type_decl \<Rightarrow> (string \<times> string option) list" where
  "declared_types (SingleType ty) = [(ty, None)]"
| "declared_types (TypeSet tys) = map (\<lambda>ty. (ty, None)) tys"
| "declared_types (TypeTagMap items) = items"

text \<open>
  \<^verbatim>\<open>ret[type_][tag].append(st)\<close> on the nested \<^verbatim>\<open>defaultdict\<close>: a missing type gets an
  empty inner dictionary, a missing tag an empty list, both at the end of the order.
\<close>

definition dd_append :: "type_mapping \<Rightarrow> string \<Rightarrow> string option \<Rightarrow> SignalType \<Rightarrow> type_mapping" where
  "dd_append ret type_str tag st =
     (let inner = (case map_of ret type_str of None \<Rightarrow> [] | Some i \<Rightarrow> i);
          sts = (case map_of inner tag of None \<Rightarrow> [] | Some l \<Rightarrow> l)
      in dict_set ret type_str (dict_set inner tag (sts @ [st])))"

fun types_loop ::
  "type_mapping \<Rightarrow> SignalType \<Rightarrow> (string \<times> string option) list \<Rightarrow> type_mapping"
where
  "types_loop ret st [] = ret"
| "types_loop ret st ((type_str, tag) # rest) = types_loop (dd_append ret type_str tag st) st rest"

fun signal_types_loop :: "type_mapping \<Rightarrow> SignalType list \<Rightarrow> type_mapping" where
  "signal_types_loop ret [] = ret"
| "signal_types_loop ret (st # rest) =
     signal_types_loop
       (case INDICATOR_TYPE st of
          None \<Rightarrow> ret
        | Some types \<Rightarrow> types_loop ret st (declared_types types))
       rest"

definition make_indicator_type_mapping :: "SignalType list \<Rightarrow> type_mapping" where
  "make_indicator_type_mapping supported_signal_types =
     signal_types_loop [] supported_signal_types"

section \<open>Delta fetch loop\<close>

definition indicator_applies ::
  "ThreatUpdateJSON \<Rightarrow> type_mapping \<Rightarrow> FBThreatExchangeIndicatorRecord option"
where
  "indicator_applies u type_mapping =
     (case map_of type_mapping (threat_type u) of
        None \<Rightarrow> None
      | Some potential_signal_type \<Rightarrow>
          (case from_threatexchange_json u of
             None \<Rightarrow> None
           | Some ind \<Rightarrow>
               if map_of potential_signal_type None \<noteq> None then Some ind
               else if list_ex
                         (\<lambda>opinion. list_ex (\<lambda>tag. map_of potential_signal_type (Some tag) \<noteq> None)
                            (tags opinion))
                         (opinions ind)
                 then Some ind
               else None))"

text \<open>
  The remote client is outside the module: \<open>get_threat_updates\<close> gives, for a privacy
  group and a start time, the pages the cursor yields (the page size, the field selector
  and the decoder are constants of the call). \<open>api\<close> is the property that raises when no
  token was configured.
\<close>

record ThreatExchangeAPI =
  app_id :: int
  get_threat_updates :: "int \<Rightarrow> int option \<Rightarrow> ThreatUpdateJSON list list"

record FBThreatExchangeSignalExchangeAPI =
  api_field :: "ThreatExchangeAPI option"

record FBThreatExchangeCollabConfig =
  privacy_group :: int

definition api :: "FBThreatExchangeSignalExchangeAPI \<Rightarrow> error + ThreatExchangeAPI" where
  "api self = (case api_field self of None \<Rightarrow> Inl AppTokenNotConfigured | Some a \<Rightarrow> Inr a)"

text \<open>\<^verbatim>\<open>int(time.time())\<close> truncates towards zero.\<close>

definition py_int :: "real \<Rightarrow> int" where
  "py_int x = (if 0 \<le> x then \<lfloor>x\<rfloor> else \<lceil>x\<rceil>)"

definition new_checkpoint :: "real \<Rightarrow> int \<Rightarrow> FBThreatExchangeCheckpoint" where
  "new_checkpoint now highest_time = \<lparr>update_time = highest_time, last_fetch_time = py_int now\<rparr>"

type_synonym update_map = "((string \<times> string) \<times> FBThreatExchangeIndicatorRecord option) list"
type_synonym ThreatExchangeDelta = "update_map \<times> FBThreatExchangeCheckpoint"

text \<open>The loop \<^verbatim>\<open>for update in fetch\<close>.\<close>

fun page_loop ::
  "ThreatUpdateJSON list \<Rightarrow> int \<Rightarrow> ThreatUpdateJSON list \<Rightarrow> ThreatUpdateJSON list \<times> int"
where
  "page_loop batch highest_time [] = (batch, highest_time)"
| "page_loop batch highest_time (update # rest) =
     page_loop (batch @ [update]) (max (time update) highest_time) rest"

text \<open>The loop \<^verbatim>\<open>for u in batch\<close>.\<close>

fun updates_loop :: "update_map \<Rightarrow> type_mapping \<Rightarrow> ThreatUpdateJSON list \<Rightarrow> update_map" where
  "updates_loop updates type_mapping [] = updates"
| "updates_loop updates type_mapping (u # rest) =
     updates_loop
       (dict_set updates (threat_type u, indicator u) (indicator_applies u type_mapping))
       type_mapping rest"

text \<open>
  The loop \<^verbatim>\<open>for fetch in cursor\<close>, one delta per page. The generator is the list of the
  deltas it yields; \<open>clock n\<close> is the clock reading when the checkpoint of page \<open>n\<close> is
  built. The records of a delta are fresh objects that nothing else refers to, so they
  are values here.
\<close>

fun cursor_loop ::
  "type_mapping \<Rightarrow> (nat \<Rightarrow> real) \<Rightarrow> nat \<Rightarrow> ThreatUpdateJSON list \<Rightarrow> int
   \<Rightarrow> ThreatUpdateJSON list list \<Rightarrow> ThreatExchangeDelta list"
where
  "cursor_loop type_mapping clock n batch highest_time [] = []"
| "cursor_loop type_mapping clock n batch highest_time (fetch # rest) =
     (case page_loop batch highest_time fetch of
        (batch', highest_time') \<Rightarrow>
          (updates_loop [] type_mapping batch', new_checkpoint (clock n) highest_time')
          # cursor_loop type_mapping clock (Suc n) batch' highest_time' rest)"

definition start_time_of :: "FBThreatExchangeCheckpoint option \<Rightarrow> int option" where
  "start_time_of checkpoint =
     (case checkpoint of None \<Rightarrow> None | Some c \<Rightarrow> Some (update_time c))"

definition fetch_iter ::
  "FBThreatExchangeSignalExchangeAPI \<Rightarrow> (nat \<Rightarrow> real) \<Rightarrow> SignalType list
   \<Rightarrow> FBThreatExchangeCollabConfig \<Rightarrow> FBThreatExchangeCheckpoint option
   \<Rightarrow> error + ThreatExchangeDelta list"
where
  "fetch_iter self clock supported_signal_types collab checkpoint =
     (case api self of
        Inl e \<Rightarrow> Inl e
      | Inr a \<Rightarrow>
          Inr (cursor_loop (make_indicator_type_mapping supported_signal_types) clock 0 [] 0
                 (get_threat_updates a (privacy_group collab) (start_time_of checkpoint))))"

text \<open>The batch and the key of an update, to state what a delta holds.\<close>

definition batch_upto :: "ThreatUpdateJSON list list \<Rightarrow> nat \<Rightarrow> ThreatUpdateJSON list" where
  "batch_upto pages k = concat (take (Suc k) pages)"

definition update_key :: "ThreatUpdateJSON \<Rightarrow> string \<times> string" where
  "update_key u = (threat_type u, indicator u)"

section \<open>Signal projection\<close>

definition merge_or_return :: "heap \<Rightarrow> addr \<Rightarrow> addr option \<Rightarrow> heap \<times> addr option" where
  "merge_or_return h tx_record existing =
     (case existing of
        Some e \<Rightarrow> (merge h e tx_record, None)
      | None \<Rightarrow> (h, Some tx_record))"

text \<open>
  \<^verbatim>\<open>any(t in tag for t in o.tags)\<close>: both are strings, so \<^verbatim>\<open>t in tag\<close> asks whether
  the opinion's tag \<open>t\<close> is a contiguous part of the candidate tag.
\<close>

definition applicable :: "string \<Rightarrow> FBThreatExchangeOpinion \<Rightarrow> bool" where
  "applicable tag o' = list_ex (\<lambda>t. sublist t tag) (tags o')"

definition merge_record_for_signal_type ::
  "heap \<Rightarrow> addr \<Rightarrow> string option \<Rightarrow> addr option \<Rightarrow> heap \<times> addr option"
where
  "merge_record_for_signal_type h tx_record tag existing =
     (case tag of
        Some tg \<Rightarrow>
          (let applicable_opinions = filter (applicable tg) (opinions (h ! tx_record)) in
           if applicable_opinions = [] then (h, None)
           else if length applicable_opinions \<noteq> length (opinions (h ! tx_record))
             then merge_or_return (h @ [\<lparr>opinions = applicable_opinions\<rparr>]) (length h) existing
           else merge_or_return h tx_record existing)
      | None \<Rightarrow> merge_or_return h tx_record existing)"

type_synonym projection = "(SignalType \<times> (string \<times> addr) list) list"

text \<open>
  The body of \<^verbatim>\<open>for tx_s_type in s_types\<close>. The normalisation of a signal type is a
  class method declared outside the module, so it is the parameter \<open>normalize_fn\<close>.
\<close>

definition s_type_step ::
  "(SignalType \<Rightarrow> string \<Rightarrow> string \<Rightarrow> string option \<Rightarrow> string)
   \<Rightarrow> string \<Rightarrow> string \<Rightarrow> addr \<Rightarrow> string option \<Rightarrow> heap \<times> projection \<Rightarrow> SignalType
   \<Rightarrow> heap \<times> projection"
where
  "s_type_step normalize_fn type_str signal_str metadata tag st tx_s_type =
     (case st of (h, ret) \<Rightarrow>
        (let s_type_specific_signal_str = normalize_fn tx_s_type type_str signal_str tag;
             ret1 = (case map_of ret tx_s_type of None \<Rightarrow> dict_set ret tx_s_type [] | Some _ \<Rightarrow> ret);
             inner = (case map_of ret tx_s_type of None \<Rightarrow> [] | Some i \<Rightarrow> i)
         in case merge_record_for_signal_type h metadata tag
                   (map_of inner s_type_specific_signal_str) of
              (h', None) \<Rightarrow> (h', ret1)
            | (h', Some to_insert) \<Rightarrow>
                (h', dict_set ret1 tx_s_type
                       (dict_set inner s_type_specific_signal_str to_insert))))"

fun s_types_loop ::
  "(SignalType \<Rightarrow> string \<Rightarrow> string \<Rightarrow> string option \<Rightarrow> string)
   \<Rightarrow> string \<Rightarrow> string \<Rightarrow> addr \<Rightarrow> string option \<Rightarrow> heap \<times> projection \<Rightarrow> SignalType list
   \<Rightarrow> heap \<times> projection"
where
  "s_types_loop normalize_fn type_str signal_str metadata tag st [] = st"
| "s_types_loop normalize_fn type_str signal_str metadata tag st (tx_s_type # rest) =
     s_types_loop normalize_fn type_str signal_str metadata tag
       (s_type_step normalize_fn type_str signal_str metadata tag st tx_s_type) rest"

text \<open>
  The loop \<^verbatim>\<open>for tag, s_types in potential_types.items()\<close>; \<open>indicator_tags\<close> was
  computed before the loop and \<^verbatim>\<open>tag not in indicator_tags\<close> is membership in a set of
  strings.
\<close>

fun tags_loop ::
  "(SignalType \<Rightarrow> string \<Rightarrow> string \<Rightarrow> string option \<Rightarrow> string)
   \<Rightarrow> string \<Rightarrow> string \<Rightarrow> addr \<Rightarrow> string list \<Rightarrow> heap \<times> projection \<Rightarrow> tag_mapping
   \<Rightarrow> heap \<times> projection"
where
  "tags_loop normalize_fn type_str signal_str metadata indicator_tags st [] = st"
| "tags_loop normalize_fn type_str signal_str metadata indicator_tags st ((tag, s_types) # rest) =
     tags_loop normalize_fn type_str signal_str metadata indicator_tags
       (if (case tag of None \<Rightarrow> False | Some tg \<Rightarrow> tg \<notin> set indicator_tags) then st
        else s_types_loop normalize_fn type_str signal_str metadata tag st s_types)
       rest"

definition indicator_tags_of :: "heap \<Rightarrow> addr \<Rightarrow> string list" where
  "indicator_tags_of h metadata = concat (map tags (opinions (h ! metadata)))"

text \<open>The loop \<^verbatim>\<open>for (type_str, signal_str), metadata in fetched.items()\<close>.\<close>

fun fetched_loop ::
  "(SignalType \<Rightarrow> string \<Rightarrow> string \<Rightarrow> string option \<Rightarrow> string)
   \<Rightarrow> type_mapping \<Rightarrow> heap \<times> projection \<Rightarrow> ((string \<times> string) \<times> addr option) list
   \<Rightarrow> heap \<times> projection"
where
  "fetched_loop normalize_fn mapping st [] = st"
| "fetched_loop normalize_fn mapping st (((type_str, signal_str), metadata) # rest) =
     fetched_loop normalize_fn mapping
       (case map_of mapping type_str of
          None \<Rightarrow> st
        | Some potential_types \<Rightarrow>
            (case metadata of
               None \<Rightarrow> st
             | Some m \<Rightarrow>
                 tags_loop normalize_fn type_str signal_str m (indicator_tags_of (fst st) m) st
                   potential_types))
       rest"

definition naive_convert_to_signal_type ::
  "(SignalType \<Rightarrow> string \<Rightarrow> string \<Rightarrow> string option \<Rightarrow> string)
   \<Rightarrow> SignalType list \<Rightarrow> heap \<Rightarrow> ((string \<times> string) \<times> addr option) list
   \<Rightarrow> heap \<times> projection"
where
  "naive_convert_to_signal_type normalize_fn signal_types h fetched =
     fetched_loop normalize_fn (make_indicator_type_mapping signal_types) (h, []) fetched"

section \<open>Write-path stubs\<close>

text \<open>
  Each of the three methods has the single statement \<^verbatim>\<open>raise NotImplementedError\<close>;
  the arguments are never read.
\<close>

definition resolve_owner :: "int \<Rightarrow> error + string" where
  "resolve_owner owner_id = Inl NotImplementedError"

definition report_seen ::
  "'collab \<Rightarrow> 'stype \<Rightarrow> string \<Rightarrow> FBThreatExchangeIndicatorRecord \<Rightarrow> error + unit"
where
  "report_seen collab s_type signal metadata = Inl NotImplementedError"

definition report_opinion ::
  "'collab \<Rightarrow> 'stype \<Rightarrow> string \<Rightarrow> 'opinion \<Rightarrow> error + unit"
where
  "report_opinion collab s_type signal opinion = Inl NotImplementedError"

section \<open>Notions used to state the results\<close>

text \<open>
  What the signal types declare, read off their \<open>INDICATOR_TYPE\<close> without the resolver:
  some supported signal type declares the remote type with this tag (\<open>None\<close> for no tag).
\<close>

definition declares :: "SignalType list \<Rightarrow> string \<Rightarrow> string option \<Rightarrow> bool" where
  "declares sts ty tag =
     list_ex (\<lambda>st. case INDICATOR_TYPE st of
                     None \<Rightarrow> False
                   | Some types \<Rightarrow> (ty, tag) \<in> set (declared_types types)) sts"

text \<open>The resolver has an entry for a remote type under a tag.\<close>

definition resolver_entry :: "type_mapping \<Rightarrow> string \<Rightarrow> string option \<Rightarrow> bool" where
  "resolver_entry tm ty tag =
     (case map_of tm ty of None \<Rightarrow> False | Some pst \<Rightarrow> map_of pst tag \<noteq> None)"




section \<open>Example inputs and readings of the specification\<close>

text \<open>Concrete updates and records on which the results below are evaluated.\<close>

definition rxn :: "string \<Rightarrow> int \<Rightarrow> reaction_json" where
  "rxn k v = \<lparr>rxn_key = k, rxn_value = v\<rparr>"

definition descriptor ::
  "int \<Rightarrow> int \<Rightarrow> string \<Rightarrow> string list \<Rightarrow> reaction_json list \<Rightarrow> td_json"
where
  "descriptor i own status ts rs =
     \<lparr>td_id = i, td_owner_id = own, td_status = status, td_tags = Some (TagList ts),
      td_reactions = Some rs\<rparr>"

definition raw_update :: "bool \<Rightarrow> string \<Rightarrow> string \<Rightarrow> int \<Rightarrow> td_json list \<Rightarrow> ThreatUpdateJSON" where
  "raw_update del ty ind t tds =
     \<lparr>should_delete = del, threat_type = ty, indicator = ind, time = t, descriptors_data = tds\<rparr>"

definition opinion_of :: "int \<Rightarrow> SignalOpinionCategory \<Rightarrow> string list \<Rightarrow> int \<Rightarrow> FBThreatExchangeOpinion" where
  "opinion_of own cat ts i = \<lparr>owner = own, category = cat, tags = ts, descriptor_id = Some i\<rparr>"

text \<open>
  The reading of the specification that the first reaction an owner sent decides the
  implicit opinion, to compare with what the parse computes.
\<close>

definition spec_first_seen_category ::
  "int \<Rightarrow> reaction_json list \<Rightarrow> SignalOpinionCategory option"
where
  "spec_first_seen_category k rs =
     (case filter (\<lambda>r. rxn_value r = k
                      \<and> (rxn_key r = ''HELPFUL'' \<or> rxn_key r = ''DISAGREE_WITH_TAGS'')) rs of
        [] \<Rightarrow> None
      | r # _ \<Rightarrow> Some (if rxn_key r = ''HELPFUL'' then POSITIVE_CLASS else NEGATIVE_CLASS))"

definition example_api :: "ThreatUpdateJSON list list \<Rightarrow> FBThreatExchangeSignalExchangeAPI" where
  "example_api pages =
     \<lparr>api_field = Some \<lparr>app_id = 1, get_threat_updates = (\<lambda>pg start. pages)\<rparr>\<rparr>"

definition video_md5 :: SignalType where
  "video_md5 = \<lparr>cls_name = ''VideoMD5'', INDICATOR_TYPE = Some (SingleType ''HASH_VIDEO_MD5'')\<rparr>"


definition tagged_md5 :: SignalType where
  "tagged_md5 =
     \<lparr>cls_name = ''VideoMD5'', INDICATOR_TYPE = Some (TypeTagMap [(''HASH_MD5'', Some ''video'')])\<rparr>"



definition first_two_chars :: "SignalType \<Rightarrow> string \<Rightarrow> string \<Rightarrow> string option \<Rightarrow> string" where
  "first_two_chars s_type type_str signal_str tag = take 2 signal_str"

text \<open>
  A record passes a candidate entry whole: the entry is untagged, or the candidate tag is
  one of the record's tags and every opinion survives the filter.
\<close>

definition all_pass :: "string option \<Rightarrow> heap \<Rightarrow> addr \<Rightarrow> bool" where
  "all_pass tag h a =
     (case tag of
        None \<Rightarrow> True
      | Some tg \<Rightarrow> tg \<in> set (indicator_tags_of h a) \<and> list_all (applicable tg) (opinions (h ! a)))"

section \<open>Results\<close>

subsection \<open>Dictionaries\<close>

lemma map_of_dict_set: "map_of (dict_set d k v) = (map_of d)(k \<mapsto> v)"
  by (induction d k v rule: dict_set.induct) (auto simp: fun_eq_iff)

lemma keys_dict_set: "set (map fst (dict_set d k v)) = insert k (set (map fst d))"
  by (induction d k v rule: dict_set.induct) auto

lemma distinct_dict_set:
  "distinct (map fst d) \<Longrightarrow> distinct (map fst (dict_set d k v))"
proof (induction d k v rule: dict_set.induct)
  case (1 k v)
  show ?case by simp
next
  case (2 k' v' kvs k v)
  then show ?case
    using keys_dict_set [of kvs k v] by auto
qed

lemma dict_set_not_Nil: "dict_set d k v \<noteq> []"
  by (cases d) (auto split: if_splits)

text \<open>A dictionary whose values carry their own key as \<open>owner\<close>.\<close>

lemma set_dict_set: "set (dict_set d k v) \<subseteq> insert (k, v) (set d)"
  by (induction d k v rule: dict_set.induct) auto

lemma owner_keyed_dict_set:
  assumes "\<forall>kv\<in>set d. owner (snd kv) = fst kv" and "owner v = k"
  shows "\<forall>kv\<in>set (dict_set d k v). owner (snd kv) = fst kv"
  using assms set_dict_set [of d k v] by auto

lemma filter_owner_keyed:
  "distinct (map fst d) \<Longrightarrow> \<forall>kv\<in>set d. owner (snd kv) = fst kv
   \<Longrightarrow> filter (\<lambda>op. owner op = k) (map snd d)
       = (case map_of d k of None \<Rightarrow> [] | Some v \<Rightarrow> [v])"
proof (induction d)
  case Nil
  show ?case by simp
next
  case (Cons kv d)
  obtain k' v' where kv: "kv = (k', v')" by (cases kv)
  from Cons.prems kv have own: "owner v' = k'" and k'_fresh: "k' \<notin> fst ` set d"
    and dist: "distinct (map fst d)" and keyed: "\<forall>kv\<in>set d. owner (snd kv) = fst kv"
    by auto
  note IH = Cons.IH [OF dist keyed]
  show ?case
  proof (cases "k' = k")
    case True
    with k'_fresh have "map_of d k = None"
      by (simp add: map_of_eq_None_iff)
    with IH True own kv show ?thesis by simp
  next
    case False
    with IH own kv show ?thesis by simp
  qed
qed

lemma map_owner_keyed:
  "\<forall>kv\<in>set d. owner (snd kv) = fst kv \<Longrightarrow> map owner (map snd d) = map fst d"
  by (induction d) auto

subsection \<open>The loops of the parse\<close>

lemma reactions_loop_append:
  "reactions_loop i (rs @ rs') = reactions_loop (reactions_loop i rs) rs'"
  by (induction i rs rule: reactions_loop.induct) simp_all

lemma descriptors_loop_snd:
  "snd (descriptors_loop e i tds) = reactions_loop i (concat (map reactions_of tds))"
  by (induction e i tds rule: descriptors_loop.induct) (simp_all add: reactions_loop_append)

lemma descriptors_loop_not_Nil:
  "e \<noteq> [] \<or> tds \<noteq> [] \<Longrightarrow> fst (descriptors_loop e i tds) \<noteq> []"
  by (induction e i tds rule: descriptors_loop.induct) (simp_all add: dict_set_not_Nil)

lemma implicit_loop_not_Nil: "e \<noteq> [] \<Longrightarrow> implicit_loop e i \<noteq> []"
  by (induction e i rule: implicit_loop.induct) (simp_all add: dict_set_not_Nil)

lemma descriptors_loop_distinct:
  "distinct (map fst e) \<Longrightarrow> distinct (map fst (fst (descriptors_loop e i tds)))"
  by (induction e i tds rule: descriptors_loop.induct) (simp_all add: distinct_dict_set)

lemma implicit_loop_distinct:
  "distinct (map fst e) \<Longrightarrow> distinct (map fst (implicit_loop e i))"
  by (induction e i rule: implicit_loop.induct) (simp_all add: distinct_dict_set)

lemma descriptors_loop_keyed:
  "\<forall>kv\<in>set e. owner (snd kv) = fst kv
   \<Longrightarrow> \<forall>kv\<in>set (fst (descriptors_loop e i tds)). owner (snd kv) = fst kv"
proof (induction e i tds rule: descriptors_loop.induct)
  case (1 e i)
  then show ?case by simp
next
  case (2 e i td rest)
  have "\<forall>kv\<in>set (dict_set e (td_owner_id td) (explicit_opinion td)). owner (snd kv) = fst kv"
    by (rule owner_keyed_dict_set [OF "2.prems"]) (simp add: explicit_opinion_def)
  from "2.IH" [OF this] show ?case by simp
qed

lemma implicit_loop_keyed:
  "\<forall>kv\<in>set e. owner (snd kv) = fst kv
   \<Longrightarrow> \<forall>kv\<in>set (implicit_loop e i). owner (snd kv) = fst kv"
proof (induction e i rule: implicit_loop.induct)
  case (1 e)
  then show ?case by simp
next
  case (2 e owner_id cat rest)
  have "\<forall>kv\<in>set (dict_set e owner_id (implicit_opinion owner_id cat)). owner (snd kv) = fst kv"
    by (rule owner_keyed_dict_set [OF "2.prems"]) (simp add: implicit_opinion_def)
  with "2.prems" have
    "\<forall>kv\<in>set (if map_of e owner_id \<noteq> None then e
                else dict_set e owner_id (implicit_opinion owner_id cat)).
       owner (snd kv) = fst kv"
    by simp
  from "2.IH" [OF this] show ?case by simp
qed

lemma parse_opinions_eq:
  "parse_opinions u =
     implicit_loop (fst (descriptors_loop [] [] (descriptors_data u)))
       (snd (descriptors_loop [] [] (descriptors_data u)))"
  by (simp add: parse_opinions_def split: prod.splits)

lemma parse_opinions_distinct: "distinct (map fst (parse_opinions u))"
  unfolding parse_opinions_eq
  by (rule implicit_loop_distinct, rule descriptors_loop_distinct) simp

lemma parse_opinions_keyed: "\<forall>kv\<in>set (parse_opinions u). owner (snd kv) = fst kv"
  unfolding parse_opinions_eq
  by (rule implicit_loop_keyed, rule descriptors_loop_keyed) simp

lemma parse_opinions_Nil_iff: "parse_opinions u = [] \<longleftrightarrow> descriptors_data u = []"
proof
  assume empty: "parse_opinions u = []"
  show "descriptors_data u = []"
  proof (rule ccontr)
    assume "descriptors_data u \<noteq> []"
    then have "fst (descriptors_loop [] [] (descriptors_data u)) \<noteq> []"
      by (simp add: descriptors_loop_not_Nil)
    then have "parse_opinions u \<noteq> []"
      unfolding parse_opinions_eq by (rule implicit_loop_not_Nil)
    with empty show False by simp
  qed
next
  assume "descriptors_data u = []"
  then show "parse_opinions u = []" by (simp add: parse_opinions_def)
qed

text \<open>What the two dictionaries hold for one owner when the loops end.\<close>

lemma descriptors_loop_map_of:
  "map_of (fst (descriptors_loop e i tds)) k =
     (if filter (\<lambda>td. td_owner_id td = k) tds = [] then map_of e k
      else Some (explicit_opinion (last (filter (\<lambda>td. td_owner_id td = k) tds))))"
  by (induction e i tds rule: descriptors_loop.induct) (simp_all add: map_of_dict_set)

lemma implicit_loop_map_of:
  "map_of (implicit_loop e i) k =
     (case map_of e k of
        Some v \<Rightarrow> Some v
      | None \<Rightarrow> map_option (implicit_opinion k) (map_of i k))"
  by (induction e i rule: implicit_loop.induct)
     (auto simp: map_of_dict_set split: option.splits)

lemma reactions_loop_map_of:
  "map_of (reactions_loop i rs) k =
     (if helpful_from k rs then Some POSITIVE_CLASS
      else if map_of i k \<noteq> None then map_of i k
      else if disagree_from k rs then Some NEGATIVE_CLASS
      else None)"
  by (induction i rs rule: reactions_loop.induct)
     (auto simp: map_of_dict_set helpful_from_def disagree_from_def)

subsection \<open>Staleness\<close>

text \<open>
  C6. \<open>is_stale\<close> is true exactly when the clock reading exceeds \<open>last_fetch_time\<close> by more
  than \<open>85 * 86400 = 7344000\<close> seconds: at an age of \<open>7344000 + d\<close> seconds the checkpoint
  is stale exactly when \<open>d > 0\<close>. So an age of \<open>7344001\<close> is stale and an age of
  \<open>7344000\<close>, one second less, is not.
\<close>

theorem is_stale_iff:
  "is_stale now c = (now - real_of_int (last_fetch_time c) > 85 * 86400)
   \<and> is_stale (real_of_int (last_fetch_time c) + 85 * 86400 + d) c = (d > 0)
   \<and> is_stale (real_of_int (last_fetch_time c) + 7344001) c
   \<and> \<not> is_stale (real_of_int (last_fetch_time c) + 7344000) c"
  by (simp add: is_stale_def)

subsection \<open>Write-path stubs\<close>

text \<open>
  C9. \<open>resolve_owner\<close>, \<open>report_seen\<close> and \<open>report_opinion\<close> raise
  \<open>NotImplementedError\<close> on every invocation, whatever the arguments; none of them
  returns normally.
\<close>

theorem write_path_not_implemented:
  "resolve_owner owner_id = Inl NotImplementedError
   \<and> report_seen collab s_type signal metadata = Inl NotImplementedError
   \<and> report_opinion collab' s_type' signal' opinion = Inl NotImplementedError"
  by (simp add: resolve_owner_def report_seen_def report_opinion_def)

lemma parse_opinions_map_of:
  "map_of (parse_opinions u) k =
     (if filter (\<lambda>td. td_owner_id td = k) (descriptors_data u) \<noteq> []
        then Some (explicit_opinion (last (filter (\<lambda>td. td_owner_id td = k) (descriptors_data u))))
      else if helpful_from k (all_reactions u) then Some (implicit_opinion k POSITIVE_CLASS)
      else if disagree_from k (all_reactions u) then Some (implicit_opinion k NEGATIVE_CLASS)
      else None)"
  unfolding parse_opinions_eq implicit_loop_map_of descriptors_loop_map_of descriptors_loop_snd
    reactions_loop_map_of all_reactions_def
  by simp

lemma from_json_opinions:
  "from_threatexchange_json u = Some r \<Longrightarrow> opinions r = map snd (parse_opinions u)"
  by (auto simp: from_threatexchange_json_def split: if_splits)

lemma from_json_filter_owner:
  assumes "from_threatexchange_json u = Some r"
  shows "filter (\<lambda>op. owner op = k) (opinions r)
           = (case map_of (parse_opinions u) k of None \<Rightarrow> [] | Some v \<Rightarrow> [v])"
  unfolding from_json_opinions [OF assms]
  by (rule filter_owner_keyed [OF parse_opinions_distinct parse_opinions_keyed])

subsection \<open>Parsing one raw update\<close>

text \<open>
  C7. \<open>from_threatexchange_json\<close> returns no record for every update that carries the
  delete marker and for every update whose parse yields no opinion, which is the case
  exactly when \<open>descriptors.data\<close> is empty; a record it returns never has an empty
  opinion list.
\<close>

theorem from_threatexchange_json_no_empty_record:
  "(should_delete u \<longrightarrow> from_threatexchange_json u = None)
   \<and> (parse_opinions u = [] \<longrightarrow> from_threatexchange_json u = None)
   \<and> (descriptors_data u = [] \<longrightarrow> from_threatexchange_json u = None)
   \<and> (from_threatexchange_json u = None \<longleftrightarrow> should_delete u \<or> descriptors_data u = [])
   \<and> (\<forall>r. from_threatexchange_json u = Some r \<longrightarrow> opinions r \<noteq> [])"
  using parse_opinions_Nil_iff [of u]
  by (auto simp: from_threatexchange_json_def)

theorem from_threatexchange_json_no_empty_record_witness:
  "should_delete (raw_update True ''HASH_MD5'' ''abc'' 5 [descriptor 1 10 ''MALICIOUS'' [''t1''] []])
   \<and> from_threatexchange_json
        (raw_update True ''HASH_MD5'' ''abc'' 5 [descriptor 1 10 ''MALICIOUS'' [''t1''] []]) = None
   \<and> descriptors_data (raw_update False ''HASH_MD5'' ''abc'' 5 []) = []
   \<and> from_threatexchange_json (raw_update False ''HASH_MD5'' ''abc'' 5 []) = None
   \<and> from_threatexchange_json
        (raw_update False ''HASH_MD5'' ''abc'' 5 [descriptor 1 10 ''MALICIOUS'' [''t1''] []])
      = Some \<lparr>opinions = [opinion_of 10 POSITIVE_CLASS [''t1''] 1]\<rparr>
   \<and> opinions \<lparr>opinions = [opinion_of 10 POSITIVE_CLASS [''t1''] 1]\<rparr> \<noteq> []"
  using
    from_threatexchange_json_no_empty_record
      [of "raw_update True ''HASH_MD5'' ''abc'' 5 [descriptor 1 10 ''MALICIOUS'' [''t1''] []]"]
    from_threatexchange_json_no_empty_record [of "raw_update False ''HASH_MD5'' ''abc'' 5 []"]
    from_threatexchange_json_no_empty_record
      [of "raw_update False ''HASH_MD5'' ''abc'' 5 [descriptor 1 10 ''MALICIOUS'' [''t1''] []]"]
  by (simp add: raw_update_def descriptor_def opinion_of_def from_threatexchange_json_def
        parse_opinions_def explicit_opinion_def reactions_of_def status_category_def)

text \<open>
  C5. A record produced by one parse has at most one opinion per owner. For an owner with
  an explicit descriptor, that one opinion is the explicit opinion of the owner's (last)
  descriptor: its category is the one of the descriptor's status and its descriptor id is
  the descriptor's, whatever reactions the update holds and wherever they stand.
\<close>

theorem one_opinion_per_owner:
  "from_threatexchange_json u = Some r \<Longrightarrow>
     distinct (map owner (opinions r))
     \<and> (\<forall>td\<in>set (descriptors_data u).
          filter (\<lambda>op. owner op = td_owner_id td) (opinions r)
            = [explicit_opinion
                 (last (filter (\<lambda>td'. td_owner_id td' = td_owner_id td) (descriptors_data u)))]
          \<and> map category (filter (\<lambda>op. owner op = td_owner_id td) (opinions r))
            = [status_category (td_status
                 (last (filter (\<lambda>td'. td_owner_id td' = td_owner_id td) (descriptors_data u))))])"
proof -
  assume r: "from_threatexchange_json u = Some r"
  have "map owner (opinions r) = map fst (parse_opinions u)"
    unfolding from_json_opinions [OF r] by (rule map_owner_keyed [OF parse_opinions_keyed])
  then have d: "distinct (map owner (opinions r))"
    using parse_opinions_distinct [of u] by simp
  have e: "filter (\<lambda>op. owner op = td_owner_id td) (opinions r)
            = [explicit_opinion
                 (last (filter (\<lambda>td'. td_owner_id td' = td_owner_id td) (descriptors_data u)))]"
    if "td \<in> set (descriptors_data u)" for td
  proof -
    from that have "filter (\<lambda>td'. td_owner_id td' = td_owner_id td) (descriptors_data u) \<noteq> []"
      by (auto simp: filter_empty_conv)
    then show ?thesis
      unfolding from_json_filter_owner [OF r] parse_opinions_map_of by simp
  qed
  from d e show ?thesis by (simp add: explicit_opinion_def)
qed

theorem one_opinion_per_owner_witness:
  "from_threatexchange_json
     (raw_update False ''HASH_MD5'' ''abc'' 5
        [descriptor 1 10 ''NON_MALICIOUS'' [''t1''] [rxn ''HELPFUL'' 10, rxn ''DISAGREE_WITH_TAGS'' 10]])
     = Some \<lparr>opinions = [opinion_of 10 NEGATIVE_CLASS [''t1''] 1]\<rparr>
   \<and> distinct (map owner [opinion_of 10 NEGATIVE_CLASS [''t1''] 1])
   \<and> map category (filter (\<lambda>op. owner op = 10) [opinion_of 10 NEGATIVE_CLASS [''t1''] 1])
       = [status_category ''NON_MALICIOUS'']"
proof -
  let ?u = "raw_update False ''HASH_MD5'' ''abc'' 5
        [descriptor 1 10 ''NON_MALICIOUS'' [''t1''] [rxn ''HELPFUL'' 10, rxn ''DISAGREE_WITH_TAGS'' 10]]"
  let ?r = "\<lparr>opinions = [opinion_of 10 NEGATIVE_CLASS [''t1''] 1]\<rparr>"
  have r: "from_threatexchange_json ?u = Some ?r"
    by (simp add: raw_update_def descriptor_def opinion_of_def rxn_def from_threatexchange_json_def
          parse_opinions_def explicit_opinion_def reactions_of_def status_category_def)
  from one_opinion_per_owner [OF r] r show ?thesis
    by (simp add: raw_update_def descriptor_def opinion_of_def explicit_opinion_def
          status_category_def)
qed

text \<open>
  C2, as the code has it. For an owner with no explicit descriptor in the update, the
  implicit opinion is decided by the kinds of reaction the owner sent, not by which came
  first: \<open>POSITIVE_CLASS\<close> when the owner sent a \<open>HELPFUL\<close> reaction anywhere in the
  update, \<open>NEGATIVE_CLASS\<close> when the owner sent a \<open>DISAGREE_WITH_TAGS\<close> reaction and no
  \<open>HELPFUL\<close> one, and no opinion otherwise. So a \<open>HELPFUL\<close> that comes first is kept
  (the first-seen reading agrees there), and a \<open>DISAGREE_WITH_TAGS\<close> is recorded only
  while the owner has no implicit opinion.
\<close>

theorem implicit_opinion_helpful_wins:
  "from_threatexchange_json u = Some r \<Longrightarrow> k \<notin> td_owner_id ` set (descriptors_data u) \<Longrightarrow>
     filter (\<lambda>op. owner op = k) (opinions r)
       = (if helpful_from k (all_reactions u) then [implicit_opinion k POSITIVE_CLASS]
          else if disagree_from k (all_reactions u) then [implicit_opinion k NEGATIVE_CLASS]
          else [])
     \<and> (spec_first_seen_category k (all_reactions u) = Some POSITIVE_CLASS
          \<longrightarrow> filter (\<lambda>op. owner op = k) (opinions r) = [implicit_opinion k POSITIVE_CLASS])"
proof -
  assume r: "from_threatexchange_json u = Some r"
    and k: "k \<notin> td_owner_id ` set (descriptors_data u)"
  from k have none: "filter (\<lambda>td. td_owner_id td = k) (descriptors_data u) = []"
    by (auto simp: filter_empty_conv)
  have main: "filter (\<lambda>op. owner op = k) (opinions r)
       = (if helpful_from k (all_reactions u) then [implicit_opinion k POSITIVE_CLASS]
          else if disagree_from k (all_reactions u) then [implicit_opinion k NEGATIVE_CLASS]
          else [])"
    unfolding from_json_filter_owner [OF r] parse_opinions_map_of using none by simp
  have "helpful_from k rs" if "spec_first_seen_category k rs = Some POSITIVE_CLASS" for rs
  proof -
    let ?P = "\<lambda>r. rxn_value r = k \<and> (rxn_key r = ''HELPFUL'' \<or> rxn_key r = ''DISAGREE_WITH_TAGS'')"
    from that obtain x xs where f: "filter ?P rs = x # xs" and x: "rxn_key x = ''HELPFUL''"
      by (auto simp: spec_first_seen_category_def split: list.splits if_splits)
    from f have "x \<in> set (filter ?P rs)" by simp
    then have "x \<in> set rs" "rxn_value x = k" by simp_all
    with x show ?thesis by (auto simp: helpful_from_def list_ex_iff)
  qed
  with main show ?thesis by simp
qed

theorem implicit_opinion_helpful_wins_witness:
  "from_threatexchange_json
     (raw_update False ''HASH_MD5'' ''abc'' 5
        [descriptor 1 10 ''MALICIOUS'' [''t1''] [rxn ''HELPFUL'' 7, rxn ''DISAGREE_WITH_TAGS'' 7,
           rxn ''DISAGREE_WITH_TAGS'' 8]])
     = Some \<lparr>opinions = [opinion_of 10 POSITIVE_CLASS [''t1''] 1,
          implicit_opinion 7 POSITIVE_CLASS, implicit_opinion 8 NEGATIVE_CLASS]\<rparr>
   \<and> filter (\<lambda>op. owner op = 7)
        [opinion_of 10 POSITIVE_CLASS [''t1''] 1, implicit_opinion 7 POSITIVE_CLASS,
         implicit_opinion 8 NEGATIVE_CLASS]
       = [implicit_opinion 7 POSITIVE_CLASS]"
proof -
  let ?u = "raw_update False ''HASH_MD5'' ''abc'' 5
        [descriptor 1 10 ''MALICIOUS'' [''t1''] [rxn ''HELPFUL'' 7, rxn ''DISAGREE_WITH_TAGS'' 7,
           rxn ''DISAGREE_WITH_TAGS'' 8]]"
  let ?r = "\<lparr>opinions = [opinion_of 10 POSITIVE_CLASS [''t1''] 1,
          implicit_opinion 7 POSITIVE_CLASS, implicit_opinion 8 NEGATIVE_CLASS]\<rparr>"
  have r: "from_threatexchange_json ?u = Some ?r"
    by (simp add: raw_update_def descriptor_def opinion_of_def rxn_def from_threatexchange_json_def
          parse_opinions_def explicit_opinion_def reactions_of_def status_category_def
          implicit_opinion_def)
  have k: "7 \<notin> td_owner_id ` set (descriptors_data ?u)"
    by (simp add: raw_update_def descriptor_def)
  have h: "helpful_from 7 (all_reactions ?u)"
    by (simp add: helpful_from_def all_reactions_def raw_update_def descriptor_def rxn_def
          reactions_of_def)
  from implicit_opinion_helpful_wins [OF r k] h r show ?thesis by simp
qed

text \<open>
  C2, as the claim states it, fails: owner 7 has no explicit descriptor and sends
  \<open>DISAGREE_WITH_TAGS\<close> first and \<open>HELPFUL\<close> second; the first-seen reading gives
  \<open>NEGATIVE_CLASS\<close>, the parse gives \<open>POSITIVE_CLASS\<close>.
\<close>

theorem first_seen_counterexample:
  "spec_first_seen_category 7
     (all_reactions
        (raw_update False ''HASH_MD5'' ''abc'' 5
           [descriptor 1 10 ''MALICIOUS'' [''t1'']
              [rxn ''DISAGREE_WITH_TAGS'' 7, rxn ''HELPFUL'' 7]]))
     = Some NEGATIVE_CLASS
   \<and> map td_owner_id
        (descriptors_data
           (raw_update False ''HASH_MD5'' ''abc'' 5
              [descriptor 1 10 ''MALICIOUS'' [''t1'']
                 [rxn ''DISAGREE_WITH_TAGS'' 7, rxn ''HELPFUL'' 7]])) = [10]
   \<and> from_threatexchange_json
        (raw_update False ''HASH_MD5'' ''abc'' 5
           [descriptor 1 10 ''MALICIOUS'' [''t1'']
              [rxn ''DISAGREE_WITH_TAGS'' 7, rxn ''HELPFUL'' 7]])
     = Some \<lparr>opinions = [opinion_of 10 POSITIVE_CLASS [''t1''] 1,
                         opinion_of 7 POSITIVE_CLASS [] (- 1)]\<rparr>"
  by (simp add: raw_update_def descriptor_def opinion_of_def rxn_def from_threatexchange_json_def
        parse_opinions_def explicit_opinion_def reactions_of_def status_category_def
        implicit_opinion_def REACTION_DESCRIPTOR_ID_def spec_first_seen_category_def
        all_reactions_def)

subsection \<open>Merging records\<close>

text \<open>
  C8. \<open>A.merge(B)\<close> makes the opinion list of \<open>A\<close> its prior opinions followed by the
  opinions of \<open>B\<close>, in order and with nothing removed, so the lengths add; this holds
  also when \<open>A\<close> and \<open>B\<close> are the same object. No other record changes.
\<close>

theorem merge_concatenates:
  "self < length h \<Longrightarrow>
     opinions (merge h self other ! self) = opinions (h ! self) @ opinions (h ! other)
     \<and> length (opinions (merge h self other ! self))
         = length (opinions (h ! self)) + length (opinions (h ! other))
     \<and> length (merge h self other) = length h
     \<and> (\<forall>a. a \<noteq> self \<longrightarrow> merge h self other ! a = h ! a)"
  by (simp add: merge_def)

theorem merge_concatenates_witness:
  "(0::nat) < length [\<lparr>opinions = [opinion_of 1 POSITIVE_CLASS [''a''] 11]\<rparr>,
                     \<lparr>opinions = [opinion_of 2 NEGATIVE_CLASS [''b''] 12,
                                  opinion_of 1 POSITIVE_CLASS [''a''] 11]\<rparr>]
   \<and> opinions (merge [\<lparr>opinions = [opinion_of 1 POSITIVE_CLASS [''a''] 11]\<rparr>,
                      \<lparr>opinions = [opinion_of 2 NEGATIVE_CLASS [''b''] 12,
                                   opinion_of 1 POSITIVE_CLASS [''a''] 11]\<rparr>] 0 1 ! 0)
       = [opinion_of 1 POSITIVE_CLASS [''a''] 11, opinion_of 2 NEGATIVE_CLASS [''b''] 12,
          opinion_of 1 POSITIVE_CLASS [''a''] 11]"
  using merge_concatenates
    [of 0 "[\<lparr>opinions = [opinion_of 1 POSITIVE_CLASS [''a''] 11]\<rparr>,
            \<lparr>opinions = [opinion_of 2 NEGATIVE_CLASS [''b''] 12,
                         opinion_of 1 POSITIVE_CLASS [''a''] 11]\<rparr>]" 1]
  by simp

subsection \<open>The fetch loop\<close>

lemma page_loop_eq: "page_loop b ht p = (b @ p, fold max (map time p) ht)"
  by (induction b ht p rule: page_loop.induct) simp_all

lemma fold_max_eq: "fold max xs (a::int) = Max (insert a (set xs))"
  using Max.set_eq_fold [of a xs] by simp

lemma cursor_loop_length: "length (cursor_loop tm clock n b ht pages) = length pages"
  by (induction pages arbitrary: n b ht) (simp_all add: page_loop_eq)

lemma cursor_loop_nth:
  "k < length pages \<Longrightarrow>
     cursor_loop tm clock n b ht pages ! k
       = (updates_loop [] tm (b @ concat (take (Suc k) pages)),
          new_checkpoint (clock (n + k)) (fold max (map time (concat (take (Suc k) pages))) ht))"
proof (induction pages arbitrary: n b ht k)
  case Nil
  then show ?case by simp
next
  case (Cons p ps)
  show ?case
  proof (cases k)
    case 0
    then show ?thesis by (simp add: page_loop_eq)
  next
    case (Suc j)
    with Cons.prems have "j < length ps" by simp
    from Cons.IH [OF this] Suc show ?thesis by (simp add: page_loop_eq)
  qed
qed

lemma updates_loop_map_of:
  "map_of (updates_loop upd tm batch) key =
     (if filter (\<lambda>u. update_key u = key) batch = [] then map_of upd key
      else Some (indicator_applies (last (filter (\<lambda>u. update_key u = key) batch)) tm))"
  by (induction upd tm batch rule: updates_loop.induct)
     (simp_all add: map_of_dict_set update_key_def)

lemma updates_loop_distinct:
  "distinct (map fst upd) \<Longrightarrow> distinct (map fst (updates_loop upd tm batch))"
  by (induction upd tm batch rule: updates_loop.induct) (simp_all add: distinct_dict_set)

lemma updates_loop_keys:
  "set (map fst (updates_loop upd tm batch)) = set (map fst upd) \<union> update_key ` set batch"
  by (induction upd tm batch rule: updates_loop.induct)
     (simp_all add: keys_dict_set update_key_def del: set_map)

lemma resolver_entry_dd_append:
  "resolver_entry (dd_append tm ty' tag' st) ty tag
     \<longleftrightarrow> resolver_entry tm ty tag \<or> (ty = ty' \<and> tag = tag')"
  by (auto simp: resolver_entry_def dd_append_def map_of_dict_set Let_def split: option.splits)

lemma resolver_entry_types_loop:
  "resolver_entry (types_loop tm st items) ty tag
     \<longleftrightarrow> resolver_entry tm ty tag \<or> (ty, tag) \<in> set items"
  by (induction tm st items rule: types_loop.induct) (auto simp: resolver_entry_dd_append)

lemma resolver_entry_signal_types_loop:
  "resolver_entry (signal_types_loop tm sts) ty tag
     \<longleftrightarrow> resolver_entry tm ty tag \<or> declares sts ty tag"
  by (induction tm sts rule: signal_types_loop.induct)
     (auto simp: declares_def resolver_entry_types_loop split: option.splits)

lemma resolver_entry_mapping:
  "resolver_entry (make_indicator_type_mapping sts) ty tag \<longleftrightarrow> declares sts ty tag"
  by (simp add: make_indicator_type_mapping_def resolver_entry_signal_types_loop)
     (simp add: resolver_entry_def)

lemma indicator_applies_resolver:
  "indicator_applies u tm =
     (case from_threatexchange_json u of
        None \<Rightarrow> None
      | Some r \<Rightarrow>
          if resolver_entry tm (threat_type u) None
             \<or> (\<exists>op\<in>set (opinions r). \<exists>t\<in>set (tags op). resolver_entry tm (threat_type u) (Some t))
          then Some r else None)"
  by (auto simp: indicator_applies_def resolver_entry_def list_ex_iff split: option.splits)

lemma indicator_applies_declares:
  "indicator_applies u (make_indicator_type_mapping sts) =
     (case from_threatexchange_json u of
        None \<Rightarrow> None
      | Some r \<Rightarrow>
          if declares sts (threat_type u) None
             \<or> (\<exists>op\<in>set (opinions r). \<exists>t\<in>set (tags op). declares sts (threat_type u) (Some t))
          then Some r else None)"
  unfolding indicator_applies_resolver resolver_entry_mapping ..

lemma batch_upto_mono: "k \<le> k' \<Longrightarrow> set (batch_upto pages k) \<subseteq> set (batch_upto pages k')"
proof -
  assume "k \<le> k'"
  then have "take (Suc k) pages = take (Suc k) (take (Suc k') pages)"
    by (simp add: min_def)
  then have "set (take (Suc k) pages) \<subseteq> set (take (Suc k') pages)"
    by (metis set_take_subset)
  then show ?thesis by (auto simp: batch_upto_def)
qed


lemma fetch_iter_nth:
  assumes "api self = Inr a"
  shows "\<exists>deltas. fetch_iter self clock sts collab checkpoint = Inr deltas
     \<and> length deltas = length (get_threat_updates a (privacy_group collab) (start_time_of checkpoint))
     \<and> (\<forall>k<length deltas. deltas ! k =
          (updates_loop [] (make_indicator_type_mapping sts)
             (batch_upto (get_threat_updates a (privacy_group collab) (start_time_of checkpoint)) k),
           new_checkpoint (clock k)
             (Max (insert 0 (time ` set
                (batch_upto (get_threat_updates a (privacy_group collab) (start_time_of checkpoint)) k))))))"
  using assms
  by (simp add: fetch_iter_def cursor_loop_length cursor_loop_nth fold_max_eq batch_upto_def)

text \<open>
  C4. The mapping of the delta emitted after page \<open>k\<close> has exactly one entry per distinct
  (remote type, indicator string) key of the whole accumulated batch, and the value of a
  key is the result of \<open>indicator_applies\<close> on the last update of the batch with that
  key. That result is the record parsed from the update when some supported signal type
  declares the update's type without a tag, or with a tag that one of the record's
  opinions carries, and "no record" otherwise: exactly when no signal type declares the
  type, or the update carries the delete marker or has no descriptor, or the type is
  declared only with tags of which the record carries none. Such an update keeps its key,
  mapped to \<open>None\<close>; a record in the mapping is never empty.
\<close>

theorem fetch_iter_delta_mapping:
  "api self = Inr a \<Longrightarrow>
   \<exists>deltas. fetch_iter self clock sts collab checkpoint = Inr deltas
     \<and> length deltas = length (get_threat_updates a (privacy_group collab) (start_time_of checkpoint))
     \<and> (\<forall>k<length deltas.
          distinct (map fst (fst (deltas ! k)))
          \<and> set (map fst (fst (deltas ! k)))
              = update_key ` set (batch_upto
                  (get_threat_updates a (privacy_group collab) (start_time_of checkpoint)) k)
          \<and> (\<forall>u\<in>set (batch_upto
                  (get_threat_updates a (privacy_group collab) (start_time_of checkpoint)) k).
                map_of (fst (deltas ! k)) (update_key u)
                  = Some (indicator_applies
                      (last (filter (\<lambda>v. update_key v = update_key u)
                         (batch_upto
                            (get_threat_updates a (privacy_group collab) (start_time_of checkpoint)) k)))
                      (make_indicator_type_mapping sts))))
     \<and> (\<forall>u. indicator_applies u (make_indicator_type_mapping sts) =
           (case from_threatexchange_json u of
              None \<Rightarrow> None
            | Some r \<Rightarrow>
                if declares sts (threat_type u) None
                   \<or> (\<exists>op\<in>set (opinions r). \<exists>t\<in>set (tags op).
                         declares sts (threat_type u) (Some t))
                then Some r else None))
     \<and> (\<forall>u. indicator_applies u (make_indicator_type_mapping sts) = None \<longleftrightarrow>
           ((\<forall>tag. \<not> declares sts (threat_type u) tag)
            \<or> should_delete u \<or> descriptors_data u = []
            \<or> (\<exists>r. from_threatexchange_json u = Some r
                  \<and> \<not> declares sts (threat_type u) None
                  \<and> (\<forall>op\<in>set (opinions r). \<forall>t\<in>set (tags op).
                        \<not> declares sts (threat_type u) (Some t)))))
     \<and> (\<forall>u r. indicator_applies u (make_indicator_type_mapping sts) = Some r
            \<longrightarrow> from_threatexchange_json u = Some r \<and> opinions r \<noteq> [])"
proof -
  assume a: "api self = Inr a"
  let ?pages = "get_threat_updates a (privacy_group collab) (start_time_of checkpoint)"
  let ?tm = "make_indicator_type_mapping sts"
  from fetch_iter_nth [OF a, of clock sts collab checkpoint]
  obtain deltas where d: "fetch_iter self clock sts collab checkpoint = Inr deltas"
    and len: "length deltas = length ?pages"
    and nth: "\<And>k. k < length deltas \<Longrightarrow>
      fst (deltas ! k) = updates_loop [] ?tm (batch_upto ?pages k)"
    by auto
  have one: "distinct (map fst (fst (deltas ! k)))"
    and keys: "set (map fst (fst (deltas ! k))) = update_key ` set (batch_upto ?pages k)"
    and vals: "\<And>u. u \<in> set (batch_upto ?pages k) \<Longrightarrow>
        map_of (fst (deltas ! k)) (update_key u)
          = Some (indicator_applies
               (last (filter (\<lambda>v. update_key v = update_key u) (batch_upto ?pages k))) ?tm)"
    if "k < length deltas" for k
  proof -
    show "distinct (map fst (fst (deltas ! k)))"
      unfolding nth [OF that] by (rule updates_loop_distinct) simp
    show "set (map fst (fst (deltas ! k))) = update_key ` set (batch_upto ?pages k)"
      unfolding nth [OF that] updates_loop_keys by simp
    fix u assume "u \<in> set (batch_upto ?pages k)"
    then have "filter (\<lambda>v. update_key v = update_key u) (batch_upto ?pages k) \<noteq> []"
      by (auto simp: filter_empty_conv)
    then show "map_of (fst (deltas ! k)) (update_key u)
          = Some (indicator_applies
               (last (filter (\<lambda>v. update_key v = update_key u) (batch_upto ?pages k))) ?tm)"
      unfolding nth [OF that] updates_loop_map_of by simp
  qed
  have parse_none: "from_threatexchange_json u = None \<longleftrightarrow> should_delete u \<or> descriptors_data u = []"
    for u
    using parse_opinions_Nil_iff [of u] by (auto simp: from_threatexchange_json_def)
  have nonempty: "opinions r \<noteq> []" if "from_threatexchange_json u = Some r" for u r
    using that parse_opinions_Nil_iff [of u]
    by (auto simp: from_threatexchange_json_def split: if_splits)
  have none_iff: "indicator_applies u ?tm = None \<longleftrightarrow>
           ((\<forall>tag. \<not> declares sts (threat_type u) tag)
            \<or> should_delete u \<or> descriptors_data u = []
            \<or> (\<exists>r. from_threatexchange_json u = Some r
                  \<and> \<not> declares sts (threat_type u) None
                  \<and> (\<forall>op\<in>set (opinions r). \<forall>t\<in>set (tags op).
                        \<not> declares sts (threat_type u) (Some t))))" for u
  proof (cases "from_threatexchange_json u")
    case None
    then show ?thesis
      using parse_none [of u] by (simp add: indicator_applies_declares)
  next
    case (Some r)
    with nonempty [OF Some] parse_none [of u] show ?thesis
      by (cases "opinions r") (auto simp: indicator_applies_declares)
  qed
  have some: "from_threatexchange_json u = Some r \<and> opinions r \<noteq> []"
    if "indicator_applies u ?tm = Some r" for u r
    using that nonempty [of u r]
    by (auto simp: indicator_applies_declares split: option.splits if_splits)
  show ?thesis
    unfolding d using len one keys vals indicator_applies_declares [of _ sts] none_iff some
    by (intro exI [of _ deltas] conjI allI impI ballI) simp_all
qed

text \<open>
  C3, as the code has it. The watermark of the checkpoint emitted after page \<open>k\<close> is the
  maximum of \<open>0\<close> and the update times of the whole accumulated batch (times 5, 3, 9, 7
  give 9; an empty batch gives 0), and within one invocation it never decreases from one
  delta to the next. A resumed invocation starts again from \<open>0\<close> and does not read the
  prior watermark into the running maximum: its watermark is at least the prior one as
  soon as the batch holds an update whose time is at least the prior watermark.
\<close>

theorem fetch_iter_watermark:
  "api self = Inr a \<Longrightarrow>
   \<exists>deltas. fetch_iter self clock sts collab checkpoint = Inr deltas
     \<and> length deltas = length (get_threat_updates a (privacy_group collab) (start_time_of checkpoint))
     \<and> (\<forall>k<length deltas.
          update_time (snd (deltas ! k))
            = Max (insert 0 (time ` set (batch_upto
                (get_threat_updates a (privacy_group collab) (start_time_of checkpoint)) k))))
     \<and> (\<forall>k k'. k \<le> k' \<and> k' < length deltas
          \<longrightarrow> update_time (snd (deltas ! k)) \<le> update_time (snd (deltas ! k')))
     \<and> (\<forall>c k u. checkpoint = Some c \<and> k < length deltas
            \<and> u \<in> set (batch_upto
                  (get_threat_updates a (privacy_group collab) (start_time_of checkpoint)) k)
            \<and> update_time c \<le> time u
          \<longrightarrow> update_time c \<le> update_time (snd (deltas ! k)))"
proof -
  assume a: "api self = Inr a"
  let ?pages = "get_threat_updates a (privacy_group collab) (start_time_of checkpoint)"
  let ?wm = "\<lambda>k. Max (insert 0 (time ` set (batch_upto ?pages k)))"
  from fetch_iter_nth [OF a, of clock sts collab checkpoint]
  obtain deltas where d: "fetch_iter self clock sts collab checkpoint = Inr deltas"
    and len: "length deltas = length ?pages"
    and nth: "\<And>k. k < length deltas \<Longrightarrow> update_time (snd (deltas ! k)) = ?wm k"
    by (auto simp: new_checkpoint_def)
  have mono: "?wm k \<le> ?wm k'" if "k \<le> k'" for k k'
    using batch_upto_mono [OF that, of ?pages] by (intro Max_mono) auto
  have ge: "t \<le> ?wm k" if "u \<in> set (batch_upto ?pages k)" "t \<le> time u" for t u k
  proof -
    from that(1) have "time u \<le> ?wm k" by (intro Max_ge) auto
    with that(2) show ?thesis by simp
  qed
  show ?thesis
    unfolding d using len nth mono ge
    by (intro exI [of _ deltas] conjI allI impI) auto
qed


lemmas example_defs = raw_update_def descriptor_def opinion_of_def rxn_def example_api_def video_md5_def
lemmas parse_defs = from_threatexchange_json_def parse_opinions_def explicit_opinion_def
  reactions_of_def status_category_def implicit_opinion_def REACTION_DESCRIPTOR_ID_def
lemmas fetch_defs = fetch_iter_def api_def start_time_of_def make_indicator_type_mapping_def
  dd_append_def indicator_applies_def new_checkpoint_def py_int_def

theorem fetch_iter_delta_mapping_witness:
  "api (example_api
         [[raw_update False ''HASH_VIDEO_MD5'' ''abc123'' 5 [descriptor 1 10 ''MALICIOUS'' [''t1''] []],
           raw_update False ''HASH_MD5'' ''m1'' 3 [descriptor 2 10 ''MALICIOUS'' [''video''] []],
           raw_update False ''HASH_MD5'' ''m2'' 4 [descriptor 3 10 ''MALICIOUS'' [''other''] []],
           raw_update False ''HASH_PDQ'' ''f00'' 3 [descriptor 4 10 ''MALICIOUS'' [''t1''] []]],
          [raw_update True ''HASH_VIDEO_MD5'' ''abc123'' 9 []]])
     = Inr \<lparr>app_id = 1, get_threat_updates = (\<lambda>pg start.
         [[raw_update False ''HASH_VIDEO_MD5'' ''abc123'' 5 [descriptor 1 10 ''MALICIOUS'' [''t1''] []],
           raw_update False ''HASH_MD5'' ''m1'' 3 [descriptor 2 10 ''MALICIOUS'' [''video''] []],
           raw_update False ''HASH_MD5'' ''m2'' 4 [descriptor 3 10 ''MALICIOUS'' [''other''] []],
           raw_update False ''HASH_PDQ'' ''f00'' 3 [descriptor 4 10 ''MALICIOUS'' [''t1''] []]],
          [raw_update True ''HASH_VIDEO_MD5'' ''abc123'' 9 []]])\<rparr>
   \<and> fetch_iter
        (example_api
         [[raw_update False ''HASH_VIDEO_MD5'' ''abc123'' 5 [descriptor 1 10 ''MALICIOUS'' [''t1''] []],
           raw_update False ''HASH_MD5'' ''m1'' 3 [descriptor 2 10 ''MALICIOUS'' [''video''] []],
           raw_update False ''HASH_MD5'' ''m2'' 4 [descriptor 3 10 ''MALICIOUS'' [''other''] []],
           raw_update False ''HASH_PDQ'' ''f00'' 3 [descriptor 4 10 ''MALICIOUS'' [''t1''] []]],
          [raw_update True ''HASH_VIDEO_MD5'' ''abc123'' 9 []]])
        (\<lambda>n. 1000) [video_md5, tagged_md5] \<lparr>privacy_group = 1\<rparr> None
     = Inr [([((''HASH_VIDEO_MD5'', ''abc123''),
                Some \<lparr>opinions = [opinion_of 10 POSITIVE_CLASS [''t1''] 1]\<rparr>),
              ((''HASH_MD5'', ''m1''),
                Some \<lparr>opinions = [opinion_of 10 POSITIVE_CLASS [''video''] 2]\<rparr>),
              ((''HASH_MD5'', ''m2''), None),
              ((''HASH_PDQ'', ''f00''), None)],
             \<lparr>update_time = 5, last_fetch_time = 1000\<rparr>),
            ([((''HASH_VIDEO_MD5'', ''abc123''), None),
              ((''HASH_MD5'', ''m1''),
                Some \<lparr>opinions = [opinion_of 10 POSITIVE_CLASS [''video''] 2]\<rparr>),
              ((''HASH_MD5'', ''m2''), None),
              ((''HASH_PDQ'', ''f00''), None)],
             \<lparr>update_time = 9, last_fetch_time = 1000\<rparr>)]"
proof -
  let ?pages = "[[raw_update False ''HASH_VIDEO_MD5'' ''abc123'' 5 [descriptor 1 10 ''MALICIOUS'' [''t1''] []],
           raw_update False ''HASH_MD5'' ''m1'' 3 [descriptor 2 10 ''MALICIOUS'' [''video''] []],
           raw_update False ''HASH_MD5'' ''m2'' 4 [descriptor 3 10 ''MALICIOUS'' [''other''] []],
           raw_update False ''HASH_PDQ'' ''f00'' 3 [descriptor 4 10 ''MALICIOUS'' [''t1''] []]],
          [raw_update True ''HASH_VIDEO_MD5'' ''abc123'' 9 []]]"
  have a: "api (example_api ?pages) = Inr \<lparr>app_id = 1, get_threat_updates = (\<lambda>pg start. ?pages)\<rparr>"
    by (simp add: api_def example_api_def)
  from fetch_iter_delta_mapping [OF a, of "\<lambda>n. 1000" "[video_md5, tagged_md5]"
      "\<lparr>privacy_group = 1\<rparr>" None] a
  show ?thesis
    by (simp add: example_defs parse_defs fetch_defs tagged_md5_def)
qed

theorem fetch_iter_watermark_witness:
  "api (example_api
         [[raw_update False ''HASH_PDQ'' ''a'' 5 [], raw_update False ''HASH_PDQ'' ''b'' 3 [],
           raw_update False ''HASH_PDQ'' ''c'' 9 [], raw_update False ''HASH_PDQ'' ''d'' 7 []],
          [], [raw_update False ''HASH_PDQ'' ''e'' 8 []]])
     = Inr \<lparr>app_id = 1, get_threat_updates = (\<lambda>pg start.
         [[raw_update False ''HASH_PDQ'' ''a'' 5 [], raw_update False ''HASH_PDQ'' ''b'' 3 [],
           raw_update False ''HASH_PDQ'' ''c'' 9 [], raw_update False ''HASH_PDQ'' ''d'' 7 []],
          [], [raw_update False ''HASH_PDQ'' ''e'' 8 []]])\<rparr>
   \<and> map (\<lambda>d. update_time (snd d))
        (projr (fetch_iter
          (example_api
             [[raw_update False ''HASH_PDQ'' ''a'' 5 [], raw_update False ''HASH_PDQ'' ''b'' 3 [],
               raw_update False ''HASH_PDQ'' ''c'' 9 [], raw_update False ''HASH_PDQ'' ''d'' 7 []],
              [], [raw_update False ''HASH_PDQ'' ''e'' 8 []]])
          (\<lambda>n. 1000) [] \<lparr>privacy_group = 1\<rparr>
          (Some \<lparr>update_time = 4, last_fetch_time = 900\<rparr>)))
     = [9, 9, 9]"
proof -
  let ?pages = "[[raw_update False ''HASH_PDQ'' ''a'' 5 [], raw_update False ''HASH_PDQ'' ''b'' 3 [],
           raw_update False ''HASH_PDQ'' ''c'' 9 [], raw_update False ''HASH_PDQ'' ''d'' 7 []],
          [], [raw_update False ''HASH_PDQ'' ''e'' 8 []]]"
  have a: "api (example_api ?pages) = Inr \<lparr>app_id = 1, get_threat_updates = (\<lambda>pg start. ?pages)\<rparr>"
    by (simp add: api_def example_api_def)
  from fetch_iter_watermark [OF a, of "\<lambda>n. 1000" "[]" "\<lparr>privacy_group = 1\<rparr>"
      "Some \<lparr>update_time = 4, last_fetch_time = 900\<rparr>"] a
  show ?thesis
    by (simp add: example_defs parse_defs fetch_defs)
qed

text \<open>
  C3, as the claim states it, fails across invocations: resumed from a checkpoint with
  watermark 9, a cursor that yields one empty page makes the loop emit a checkpoint with
  watermark 0.
\<close>

theorem resumed_watermark_counterexample:
  "fetch_iter (example_api [[]]) (\<lambda>n. 1000) [] \<lparr>privacy_group = 1\<rparr>
     (Some \<lparr>update_time = 9, last_fetch_time = 900\<rparr>)
     = Inr [([], \<lparr>update_time = 0, last_fetch_time = 1000\<rparr>)]
   \<and> update_time \<lparr>update_time = 0, last_fetch_time = 1000\<rparr>
       < update_time \<lparr>update_time = 9, last_fetch_time = 900\<rparr>"
  by (simp add: example_defs fetch_defs)

subsection \<open>Signal projection\<close>





lemma type_mapping_single_tagged:
  "INDICATOR_TYPE sty = Some (TypeTagMap [(ty, tag)])
   \<Longrightarrow> make_indicator_type_mapping [sty] = [(ty, [(tag, [sty])])]"
  by (simp add: make_indicator_type_mapping_def dd_append_def)

































lemma all_pass_merge_record:
  assumes "all_pass tag h a"
  shows "merge_record_for_signal_type h a tag existing = merge_or_return h a existing"
proof (cases tag)
  case None
  then show ?thesis by (simp add: merge_record_for_signal_type_def)
next
  case (Some tg)
  with assms have all: "filter (applicable tg) (opinions (h ! a)) = opinions (h ! a)"
    and gate: "tg \<in> set (indicator_tags_of h a)"
    by (simp_all add: all_pass_def list_all_iff)
  from gate have "opinions (h ! a) \<noteq> []"
    by (auto simp: indicator_tags_of_def)
  with all Some show ?thesis
    by (simp add: merge_record_for_signal_type_def)
qed

lemma all_pass_gate:
  "all_pass tag h a \<Longrightarrow>
     \<not> (case tag of None \<Rightarrow> False | Some tg \<Rightarrow> tg \<notin> set (indicator_tags_of h a))"
  by (simp add: all_pass_def split: option.splits)

text \<open>
  C10. The projection can change a record of its input. For one signal type declaring one
  type, two fetched entries of that type whose records are different objects, pass the
  candidate entry whole and normalise to the same signal string: the first record is
  stored in the result as it is, and the merge of the second appends the second record's
  opinions to it in place. The record at the first address is then no longer what the
  input mapping held, whenever the second record has an opinion.
\<close>

theorem projection_mutates_input:
  "a1 < length h \<Longrightarrow> a2 < length h \<Longrightarrow> a1 \<noteq> a2
   \<Longrightarrow> INDICATOR_TYPE sty = Some (TypeTagMap [(ty, tag)])
   \<Longrightarrow> nf sty ty s1 tag = nf sty ty s2 tag
   \<Longrightarrow> all_pass tag h a1 \<Longrightarrow> all_pass tag h a2
   \<Longrightarrow> naive_convert_to_signal_type nf [sty] h [((ty, s1), Some a1), ((ty, s2), Some a2)]
         = (h[a1 := \<lparr>opinions = opinions (h ! a1) @ opinions (h ! a2)\<rparr>],
            [(sty, [(nf sty ty s1 tag, a1)])])
       \<and> (opinions (h ! a2) \<noteq> []
            \<longrightarrow> fst (naive_convert_to_signal_type nf [sty] h
                       [((ty, s1), Some a1), ((ty, s2), Some a2)]) ! a1 \<noteq> h ! a1)"
proof -
  assume a1: "a1 < length h" and a2: "a2 < length h" and ne: "a1 \<noteq> a2"
    and sty: "INDICATOR_TYPE sty = Some (TypeTagMap [(ty, tag)])"
    and same: "nf sty ty s1 tag = nf sty ty s2 tag"
    and p1: "all_pass tag h a1" and p2: "all_pass tag h a2"
  let ?h' = "h[a1 := \<lparr>opinions = opinions (h ! a1) @ opinions (h ! a2)\<rparr>]"
  have first: "s_type_step nf ty s1 a1 tag (h, []) sty = (h, [(sty, [(nf sty ty s1 tag, a1)])])"
    by (simp add: s_type_step_def all_pass_merge_record [OF p1] merge_or_return_def)
  have second: "s_type_step nf ty s2 a2 tag (h, [(sty, [(nf sty ty s1 tag, a1)])]) sty
                  = (?h', [(sty, [(nf sty ty s1 tag, a1)])])"
    using same
    by (simp add: s_type_step_def all_pass_merge_record [OF p2] merge_or_return_def merge_def)
  have run: "naive_convert_to_signal_type nf [sty] h [((ty, s1), Some a1), ((ty, s2), Some a2)]
         = (?h', [(sty, [(nf sty ty s1 tag, a1)])])"
    using all_pass_gate [OF p1] all_pass_gate [OF p2]
    by (simp add: naive_convert_to_signal_type_def type_mapping_single_tagged [OF sty]
          first second)
  have "?h' ! a1 \<noteq> h ! a1" if "opinions (h ! a2) \<noteq> []"
  proof
    assume "?h' ! a1 = h ! a1"
    then have "opinions (?h' ! a1) = opinions (h ! a1)" by simp
    with a1 that show False by simp
  qed
  with run show ?thesis by simp
qed

theorem projection_mutates_input_witness:
  "(0::nat) < length [\<lparr>opinions = [opinion_of 1 POSITIVE_CLASS [''video''] 11]\<rparr>,
                     \<lparr>opinions = [opinion_of 2 NEGATIVE_CLASS [''video'', ''x''] 12]\<rparr>]
   \<and> (1::nat) < length [\<lparr>opinions = [opinion_of 1 POSITIVE_CLASS [''video''] 11]\<rparr>,
                       \<lparr>opinions = [opinion_of 2 NEGATIVE_CLASS [''video'', ''x''] 12]\<rparr>]
   \<and> (0::nat) \<noteq> 1
   \<and> INDICATOR_TYPE tagged_md5 = Some (TypeTagMap [(''HASH_MD5'', Some ''video'')])
   \<and> first_two_chars tagged_md5 ''HASH_MD5'' ''abc'' (Some ''video'')
       = first_two_chars tagged_md5 ''HASH_MD5'' ''abC'' (Some ''video'')
   \<and> all_pass (Some ''video'')
        [\<lparr>opinions = [opinion_of 1 POSITIVE_CLASS [''video''] 11]\<rparr>,
         \<lparr>opinions = [opinion_of 2 NEGATIVE_CLASS [''video'', ''x''] 12]\<rparr>] 0
   \<and> all_pass (Some ''video'')
        [\<lparr>opinions = [opinion_of 1 POSITIVE_CLASS [''video''] 11]\<rparr>,
         \<lparr>opinions = [opinion_of 2 NEGATIVE_CLASS [''video'', ''x''] 12]\<rparr>] 1
   \<and> naive_convert_to_signal_type first_two_chars [tagged_md5]
        [\<lparr>opinions = [opinion_of 1 POSITIVE_CLASS [''video''] 11]\<rparr>,
         \<lparr>opinions = [opinion_of 2 NEGATIVE_CLASS [''video'', ''x''] 12]\<rparr>]
        [((''HASH_MD5'', ''abc''), Some 0), ((''HASH_MD5'', ''abC''), Some 1)]
     = ([\<lparr>opinions = [opinion_of 1 POSITIVE_CLASS [''video''] 11,
                       opinion_of 2 NEGATIVE_CLASS [''video'', ''x''] 12]\<rparr>,
         \<lparr>opinions = [opinion_of 2 NEGATIVE_CLASS [''video'', ''x''] 12]\<rparr>],
        [(tagged_md5, [(''ab'', 0)])])"
proof -
  let ?h = "[\<lparr>opinions = [opinion_of 1 POSITIVE_CLASS [''video''] 11]\<rparr>,
             \<lparr>opinions = [opinion_of 2 NEGATIVE_CLASS [''video'', ''x''] 12]\<rparr>]"
  have a1: "(0::nat) < length ?h" and a2: "(1::nat) < length ?h" and ne: "(0::nat) \<noteq> 1"
    by simp_all
  have t: "INDICATOR_TYPE tagged_md5 = Some (TypeTagMap [(''HASH_MD5'', Some ''video'')])"
    by (simp add: tagged_md5_def)
  have n: "first_two_chars tagged_md5 ''HASH_MD5'' ''abc'' (Some ''video'')
             = first_two_chars tagged_md5 ''HASH_MD5'' ''abC'' (Some ''video'')"
    by (simp add: first_two_chars_def)
  have p1: "all_pass (Some ''video'') ?h 0" and p2: "all_pass (Some ''video'') ?h 1"
    by (simp_all add: all_pass_def indicator_tags_of_def applicable_def opinion_of_def
          sublist_code(3))
  from projection_mutates_input [where nf = first_two_chars, OF a1 a2 ne t n p1 p2] a1 a2 ne t n p1 p2
  show ?thesis
    by (simp add: first_two_chars_def)
qed

end
